theory Spec2Isabelle
  imports Main "HOL-Library.Word"
begin

section \<open>The ledger-update listener of pkg/nodebridge/ledger.go\<close>

text \<open>
  \<^verbatim>\<open>ListenToLedgerUpdates\<close> opens a gRPC stream, receives ledger-update messages from it
  in a loop, collects the messages between a BEGIN and an END marker in a
  \<^verbatim>\<open>LedgerUpdate\<close> and hands each completed update to the callback \<^verbatim>\<open>consume\<close>.

  The embedding follows the Go function statement by statement. What the function takes
  from its environment is made an explicit input:
  \<^item> the result of opening the stream (\<^verbatim>\<open>n.client.ListenToLedgerUpdates\<close>), an optional error;
  \<^item> the stream, a list of the results of the successive calls of \<^verbatim>\<open>stream.Recv()\<close>;
    each result carries the value that \<^verbatim>\<open>ctx.Err() != nil\<close> has when the loop tests it
    in that iteration;
  \<^item> the callback, a function of the update it is given and of the updates it was given before
    (a Go closure may keep state between calls).
  A list of receive results that is used up stands for a \<^verbatim>\<open>Recv\<close> that has not returned:
  the function is then still in its loop, which is a result of its own (\<open>Receiving\<close>).
\<close>

subsection \<open>Errors\<close>

text \<open>
  Go's \<^verbatim>\<open>error\<close> values: the three sentinel errors of the package, \<^verbatim>\<open>io.EOF\<close>, an error that
  carries a gRPC status code (\<^verbatim>\<open>codes.Code\<close> is a \<^verbatim>\<open>uint32\<close>), and any other error value.
\<close>

type_synonym codes_Code = "32 word"

definition codes_OK :: codes_Code where "codes_OK = 0"
definition codes_Canceled :: codes_Code where "codes_Canceled = 1"
definition codes_Unknown :: codes_Code where "codes_Unknown = 2"
definition codes_DeadlineExceeded :: codes_Code where "codes_DeadlineExceeded = 4"

datatype error =
    ErrLedgerUpdateTransactionAlreadyInProgress
  | ErrLedgerUpdateInvalidOperation
  | ErrLedgerUpdateEndedAbruptly
  | io_EOF
  | StatusError codes_Code
  | OtherError string

text \<open>
  Modelled from the spec: the library functions \<^verbatim>\<open>errors.Is\<close> and \<^verbatim>\<open>status.Code\<close> (the spec's
  stream error distinguishes end-of-stream, cancelled and any other transport error).
  \<^verbatim>\<open>errors.Is(err, io.EOF)\<close> holds when \<^verbatim>\<open>err\<close> is \<^verbatim>\<open>io.EOF\<close>, and not for \<^verbatim>\<open>nil\<close>;
  \<^verbatim>\<open>status.Code(err)\<close> is \<^verbatim>\<open>OK\<close> for \<^verbatim>\<open>nil\<close>, the code of a status error, and \<^verbatim>\<open>Unknown\<close> for
  every other error. Error values are not wrapped in this model.
\<close>

definition errors_Is :: "error option \<Rightarrow> error \<Rightarrow> bool" where
  "errors_Is err target = (err = Some target)"

fun status_Code :: "error option \<Rightarrow> codes_Code" where
  "status_Code None = codes_OK"
| "status_Code (Some (StatusError c)) = c"
| "status_Code (Some _) = codes_Unknown"

subsection \<open>Messages of the stream\<close>

text \<open>
  \<^verbatim>\<open>inx.LedgerUpdate\<close> is a protobuf message with a oneof field \<^verbatim>\<open>op\<close>: a batch marker, a
  spent output or a created output. \<^verbatim>\<open>GetOp()\<close> is \<^verbatim>\<open>nil\<close> when the field is not set; the
  payloads \<^verbatim>\<open>*inx.LedgerSpent\<close> and \<^verbatim>\<open>*inx.LedgerOutput\<close> are opaque (type variables).
  The marker type is a protobuf enum, an \<^verbatim>\<open>int32\<close> with the named values BEGIN and END.
\<close>

datatype LedgerUpdate_Marker_MarkerType =
    LedgerUpdate_Marker_BEGIN
  | LedgerUpdate_Marker_END
  | LedgerUpdate_Marker_Unnamed int

datatype LedgerUpdate_Marker =
  Marker (GetMilestoneIndex: "32 word")
         (GetMarkerType: LedgerUpdate_Marker_MarkerType)
         (GetConsumedCount: "32 word")
         (GetCreatedCount: "32 word")

datatype ('s, 'o) isLedgerUpdate_Op =
    LedgerUpdate_BatchMarker LedgerUpdate_Marker
  | LedgerUpdate_Consumed 's
  | LedgerUpdate_Created 'o

text \<open>
  One call of \<^verbatim>\<open>stream.Recv()\<close>: \<open>GetOp\<close> is \<^verbatim>\<open>payload.GetOp()\<close> (\<open>None\<close> for \<^verbatim>\<open>nil\<close>), \<open>err\<close>
  the error returned with it, \<open>ctx_Err\<close> whether \<^verbatim>\<open>ctx.Err() != nil\<close> in this iteration.
\<close>

datatype ('s, 'o) Recv =
  Recv (GetOp: "('s, 'o) isLedgerUpdate_Op option") (err: "error option") (ctx_Err: bool)

subsection \<open>The update under construction and the result\<close>

record ('s, 'o) LedgerUpdate =
  MilestoneIndex :: "32 word"
  Consumed :: "'s list"
  Created :: "'o list"

text \<open>
  \<open>Receiving update\<close>: the loop waits for the next message, with the local variable
  \<^verbatim>\<open>update\<close> as given (\<open>None\<close> is \<^verbatim>\<open>nil\<close>). \<open>Returned e\<close>: the function has returned \<open>e\<close>
  (\<open>None\<close> is \<^verbatim>\<open>nil\<close>).
\<close>

datatype ('s, 'o) status =
    Receiving "('s, 'o) LedgerUpdate option"
  | Returned "error option"

type_synonym ('s, 'o) callback =
  "('s, 'o) LedgerUpdate list \<Rightarrow> ('s, 'o) LedgerUpdate \<Rightarrow> error option"

subsection \<open>The loop\<close>

text \<open>
  The type switch on \<^verbatim>\<open>payload.GetOp()\<close> (lines 53 to 101). \<open>calls\<close> is the list of the
  updates the callback has been invoked with so far, in order. \<^verbatim>\<open>uint32(len(xs))\<close> keeps
  the low 32 bits of the length.
\<close>

definition switch_Op ::
  "('s, 'o) callback \<Rightarrow> ('s, 'o) LedgerUpdate option \<Rightarrow> ('s, 'o) LedgerUpdate list \<Rightarrow>
   ('s, 'o) isLedgerUpdate_Op option \<Rightarrow> ('s, 'o) status \<times> ('s, 'o) LedgerUpdate list" where
  "switch_Op consume update calls op =
     (case op of
        Some (LedgerUpdate_BatchMarker m) \<Rightarrow>
          (case GetMarkerType m of
             LedgerUpdate_Marker_BEGIN \<Rightarrow>
               if update \<noteq> None
               then (Returned (Some ErrLedgerUpdateTransactionAlreadyInProgress), calls)
               else (Receiving (Some \<lparr>MilestoneIndex = GetMilestoneIndex m,
                                      Consumed = [], Created = []\<rparr>), calls)
           | LedgerUpdate_Marker_END \<Rightarrow>
               (case update of
                  None \<Rightarrow> (Returned (Some ErrLedgerUpdateInvalidOperation), calls)
                | Some u \<Rightarrow>
                    if (of_nat (length (Consumed u)) :: 32 word) \<noteq> GetConsumedCount m \<or>
                       (of_nat (length (Created u)) :: 32 word) \<noteq> GetCreatedCount m \<or>
                       MilestoneIndex u \<noteq> GetMilestoneIndex m
                    then (Returned (Some ErrLedgerUpdateEndedAbruptly), calls)
                    else (case consume calls u of
                            Some e \<Rightarrow> (Returned (Some e), calls @ [u])
                          | None \<Rightarrow> (Receiving None, calls @ [u])))
           | LedgerUpdate_Marker_Unnamed _ \<Rightarrow> (Receiving update, calls))
      | Some (LedgerUpdate_Consumed sp) \<Rightarrow>
          (case update of
             None \<Rightarrow> (Returned (Some ErrLedgerUpdateInvalidOperation), calls)
           | Some u \<Rightarrow> (Receiving (Some (u\<lparr>Consumed := Consumed u @ [sp]\<rparr>)), calls))
      | Some (LedgerUpdate_Created out) \<Rightarrow>
          (case update of
             None \<Rightarrow> (Returned (Some ErrLedgerUpdateInvalidOperation), calls)
           | Some u \<Rightarrow> (Receiving (Some (u\<lparr>Created := Created u @ [out]\<rparr>)), calls))
      | None \<Rightarrow> (Receiving update, calls))"

text \<open>
  The \<^verbatim>\<open>for\<close> loop (lines 39 to 102), from the value of \<^verbatim>\<open>update\<close> and the calls made so
  far, over the receive results still to come.
\<close>

fun recv_loop ::
  "('s, 'o) callback \<Rightarrow> ('s, 'o) LedgerUpdate option \<Rightarrow> ('s, 'o) LedgerUpdate list \<Rightarrow>
   ('s, 'o) Recv list \<Rightarrow> ('s, 'o) status \<times> ('s, 'o) LedgerUpdate list" where
  "recv_loop consume update calls [] = (Receiving update, calls)"
| "recv_loop consume update calls (r # rest) =
     (if errors_Is (err r) io_EOF \<or> status_Code (err r) = codes_Canceled
      then (Returned None, calls)
      else if ctx_Err r then (Returned None, calls)
      else if err r \<noteq> None then (Returned (err r), calls)
      else (case switch_Op consume update calls (GetOp r) of
              (Receiving update', calls') \<Rightarrow> recv_loop consume update' calls' rest
            | (Returned e, calls') \<Rightarrow> (Returned e, calls')))"

text \<open>
  The function: \<open>client_err\<close> is the error of opening the stream (lines 33 to 36);
  \<^verbatim>\<open>update\<close> starts as \<^verbatim>\<open>nil\<close>.
\<close>

definition ListenToLedgerUpdates ::
  "error option \<Rightarrow> ('s, 'o) callback \<Rightarrow> ('s, 'o) Recv list \<Rightarrow>
   ('s, 'o) status \<times> ('s, 'o) LedgerUpdate list" where
  "ListenToLedgerUpdates client_err consume stream =
     (if client_err \<noteq> None then (Returned client_err, [])
      else recv_loop consume None [] stream)"

text \<open>A message received without error while the context is live.\<close>

definition received :: "('s, 'o) isLedgerUpdate_Op \<Rightarrow> ('s, 'o) Recv" where
  "received op = Recv (Some op) None False"

definition BEGIN :: "32 word \<Rightarrow> 32 word \<Rightarrow> 32 word \<Rightarrow> ('s, 'o) isLedgerUpdate_Op" where
  "BEGIN idx c k = LedgerUpdate_BatchMarker (Marker idx LedgerUpdate_Marker_BEGIN c k)"

definition END :: "32 word \<Rightarrow> 32 word \<Rightarrow> 32 word \<Rightarrow> ('s, 'o) isLedgerUpdate_Op" where
  "END idx c k = LedgerUpdate_BatchMarker (Marker idx LedgerUpdate_Marker_END c k)"

text \<open>The items of a list of messages: the spent and the created payloads, in order.\<close>

fun is_item :: "('s, 'o) isLedgerUpdate_Op \<Rightarrow> bool" where
  "is_item (LedgerUpdate_BatchMarker _) = False"
| "is_item _ = True"

fun consumed_of :: "('s, 'o) isLedgerUpdate_Op list \<Rightarrow> 's list" where
  "consumed_of [] = []"
| "consumed_of (LedgerUpdate_Consumed sp # ops) = sp # consumed_of ops"
| "consumed_of (_ # ops) = consumed_of ops"

fun created_of :: "('s, 'o) isLedgerUpdate_Op list \<Rightarrow> 'o list" where
  "created_of [] = []"
| "created_of (LedgerUpdate_Created out # ops) = out # created_of ops"
| "created_of (_ # ops) = created_of ops"

section \<open>Properties of the loop\<close>

subsection \<open>Auxiliary facts\<close>

lemma recv_loop_received:
  "recv_loop consume update calls (received op # rest) =
     (case switch_Op consume update calls (Some op) of
        (Receiving update', calls') \<Rightarrow> recv_loop consume update' calls' rest
      | (Returned e, calls') \<Rightarrow> (Returned e, calls'))"
  by (simp add: received_def errors_Is_def codes_OK_def codes_Canceled_def)

lemma recv_loop_append:
  "recv_loop consume update calls (xs @ ys) =
     (case recv_loop consume update calls xs of
        (Receiving update', calls') \<Rightarrow> recv_loop consume update' calls' ys
      | (Returned e, calls') \<Rightarrow> (Returned e, calls'))"
proof (induction xs arbitrary: update calls)
  case Nil
  show ?case by simp
next
  case (Cons r xs)
  show ?case
  proof (cases "switch_Op consume update calls (GetOp r)")
    case (Pair st calls')
    then show ?thesis using Cons.IH by (cases st) simp_all
  qed
qed

lemma switch_Op_Consumed:
  "switch_Op consume (Some u) calls (Some (LedgerUpdate_Consumed sp)) =
     (Receiving (Some (u\<lparr>Consumed := Consumed u @ [sp]\<rparr>)), calls)"
  by (simp add: switch_Op_def)

lemma switch_Op_Created:
  "switch_Op consume (Some u) calls (Some (LedgerUpdate_Created out)) =
     (Receiving (Some (u\<lparr>Created := Created u @ [out]\<rparr>)), calls)"
  by (simp add: switch_Op_def)

lemma recv_loop_items:
  "list_all is_item items \<Longrightarrow>
   recv_loop consume (Some u) calls (map received items @ rest) =
   recv_loop consume
     (Some (u\<lparr>Consumed := Consumed u @ consumed_of items,
              Created := Created u @ created_of items\<rparr>)) calls rest"
proof (induction items arbitrary: u)
  case Nil
  show ?case by simp
next
  case (Cons x items)
  then show ?case
    by (cases x)
      (simp_all add: recv_loop_received switch_Op_Consumed switch_Op_Created
         del: recv_loop.simps)
qed

lemma switch_Op_BEGIN:
  "switch_Op consume None calls (Some (BEGIN idx c k)) =
     (Receiving (Some \<lparr>MilestoneIndex = idx, Consumed = [], Created = []\<rparr>), calls)"
  by (simp add: switch_Op_def BEGIN_def)

lemma switch_Op_END:
  "switch_Op consume (Some u) calls (Some (END idx c k)) =
     (if (of_nat (length (Consumed u)) :: 32 word) \<noteq> c \<or>
         (of_nat (length (Created u)) :: 32 word) \<noteq> k \<or> MilestoneIndex u \<noteq> idx
      then (Returned (Some ErrLedgerUpdateEndedAbruptly), calls)
      else (case consume calls u of
              Some e \<Rightarrow> (Returned (Some e), calls @ [u])
            | None \<Rightarrow> (Receiving None, calls @ [u])))"
  by (simp add: switch_Op_def END_def)

lemma recv_loop_batch:
  assumes "list_all is_item items"
    and "length (consumed_of items) = unat c"
    and "length (created_of items) = unat k"
  shows "recv_loop consume None calls
           (received (BEGIN idx c k) # map received items @ received (END idx c k) # rest) =
         (case consume calls \<lparr>MilestoneIndex = idx, Consumed = consumed_of items,
                               Created = created_of items\<rparr> of
            Some e \<Rightarrow> (Returned (Some e),
                       calls @ [\<lparr>MilestoneIndex = idx, Consumed = consumed_of items,
                                 Created = created_of items\<rparr>])
          | None \<Rightarrow> recv_loop consume None
                      (calls @ [\<lparr>MilestoneIndex = idx, Consumed = consumed_of items,
                                 Created = created_of items\<rparr>]) rest)"
  using assms
  by (simp add: recv_loop_received switch_Op_BEGIN recv_loop_items switch_Op_END
           del: recv_loop.simps split: option.split)


lemma ListenToLedgerUpdates_append:
  assumes "ListenToLedgerUpdates None consume pre = (Receiving update, calls)"
  shows "ListenToLedgerUpdates None consume (pre @ stream) = recv_loop consume update calls stream"
  using assms by (simp add: ListenToLedgerUpdates_def recv_loop_append)






lemmas eval_defs = ListenToLedgerUpdates_def switch_Op_def received_def BEGIN_def END_def
  errors_Is_def codes_OK_def codes_Canceled_def codes_Unknown_def codes_DeadlineExceeded_def

subsection \<open>Delivery of a well-formed batch\<close>

text \<open>
  Claim C1. Let the function be in its loop with no update open after the receive results
  \<open>pre\<close> (for the start of the stream, \<open>pre = []\<close>). When the stream goes on with the marker
  BEGIN(idx, c, k), then \<open>c\<close> spent and \<open>k\<close> created outputs in any interleaving, then the
  marker END(idx, c, k), all received without error while the context is live, the callback is
  invoked exactly once more: the list of calls grows by the one update with index \<open>idx\<close>, the
  spent payloads in the order they arrived (there are \<open>c\<close> of them) and the created payloads
  in the order they arrived (\<open>k\<close> of them). The function then waits for the next message
  with no update open, or has returned the callback's error.
\<close>

theorem well_formed_batch_delivered_once:
  assumes "ListenToLedgerUpdates None consume pre = (Receiving None, calls)"
    and "list_all is_item items"
    and "length (consumed_of items) = unat c"
    and "length (created_of items) = unat k"
  shows "ListenToLedgerUpdates None consume
           (pre @ received (BEGIN idx c k) # map received items @ [received (END idx c k)]) =
         ((case consume calls \<lparr>MilestoneIndex = idx, Consumed = consumed_of items,
                                Created = created_of items\<rparr> of
             None \<Rightarrow> Receiving None | Some e \<Rightarrow> Returned (Some e)),
          calls @ [\<lparr>MilestoneIndex = idx, Consumed = consumed_of items,
                    Created = created_of items\<rparr>])"
  using assms(2-4)
  by (simp add: ListenToLedgerUpdates_append [OF assms(1)] recv_loop_batch
           del: recv_loop.simps(2) split: option.split)

theorem well_formed_batch_delivered_once_witness:
  "ListenToLedgerUpdates None (\<lambda>_ _. None)
     [received (BEGIN 7 2 1), received (LedgerUpdate_Consumed (10::nat)),
      received (LedgerUpdate_Created (20::nat)), received (LedgerUpdate_Consumed 11),
      received (END 7 2 1)] =
   (Receiving None, [\<lparr>MilestoneIndex = 7, Consumed = [10, 11], Created = [20]\<rparr>])"
  using well_formed_batch_delivered_once [of "\<lambda>_ _. None" "[]" "[]"
      "[LedgerUpdate_Consumed (10::nat), LedgerUpdate_Created (20::nat), LedgerUpdate_Consumed 11]"
      2 1 7]
  by (simp add: ListenToLedgerUpdates_def del: recv_loop.simps(2))

subsection \<open>A second BEGIN\<close>

text \<open>
  Claim C2. When a BEGIN marker is received (without error, the context live) while an
  update is open, the function returns \<^verbatim>\<open>ErrLedgerUpdateTransactionAlreadyInProgress\<close>
  whatever follows in the stream, and the callback is not invoked: the calls are those made
  before the marker, so none at all when no batch was completed earlier.
\<close>

theorem second_BEGIN_rejected:
  assumes "ListenToLedgerUpdates None consume pre = (Receiving (Some u), calls)"
  shows "ListenToLedgerUpdates None consume (pre @ received (BEGIN idx c k) # rest) =
         (Returned (Some ErrLedgerUpdateTransactionAlreadyInProgress), calls)"
  by (simp add: ListenToLedgerUpdates_append [OF assms] recv_loop_received switch_Op_def
        BEGIN_def del: recv_loop.simps(2))

theorem second_BEGIN_rejected_witness:
  "ListenToLedgerUpdates None (\<lambda>_ _. None)
     [received (BEGIN 1 0 0), received (BEGIN 2 0 0) :: (nat, nat) Recv] =
   (Returned (Some ErrLedgerUpdateTransactionAlreadyInProgress), [])"
  using second_BEGIN_rejected [of "\<lambda>_ _. None" "[received (BEGIN 1 0 0) :: (nat, nat) Recv]"
      "\<lparr>MilestoneIndex = 1, Consumed = [], Created = []\<rparr>" "[]" 2 0 0 "[]"]
  by (simp add: eval_defs)

subsection \<open>Records outside a batch\<close>

text \<open>
  Claim C3. When a spent output, a created output or an END marker is received (without
  error, the context live) while no update is open, the function returns
  \<^verbatim>\<open>ErrLedgerUpdateInvalidOperation\<close>, whatever follows in the stream, and the callback is
  not invoked.
\<close>

theorem orphan_record_rejected:
  assumes "ListenToLedgerUpdates None consume pre = (Receiving None, calls)"
    and "op = LedgerUpdate_Consumed sp \<or> op = LedgerUpdate_Created out \<or> op = END idx c k"
  shows "ListenToLedgerUpdates None consume (pre @ received op # rest) =
         (Returned (Some ErrLedgerUpdateInvalidOperation), calls)"
  using assms(2)
  by (auto simp add: ListenToLedgerUpdates_append [OF assms(1)] recv_loop_received
        switch_Op_def END_def simp del: recv_loop.simps(2))

theorem orphan_record_rejected_witness:
  "ListenToLedgerUpdates None (\<lambda>_ _. None)
     [received (LedgerUpdate_Consumed (3::nat)) :: (nat, nat) Recv] =
   (Returned (Some ErrLedgerUpdateInvalidOperation), []) \<and>
   ListenToLedgerUpdates None (\<lambda>_ _. None)
     [received (LedgerUpdate_Created (4::nat)) :: (nat, nat) Recv] =
   (Returned (Some ErrLedgerUpdateInvalidOperation), []) \<and>
   ListenToLedgerUpdates None (\<lambda>_ _. None)
     [received (END 1 0 0) :: (nat, nat) Recv] =
   (Returned (Some ErrLedgerUpdateInvalidOperation), [])"
  using orphan_record_rejected [of "\<lambda>_ _. None" "[]" "[]"
      "LedgerUpdate_Consumed (3::nat) :: (nat, nat) isLedgerUpdate_Op" 3 0 0 0 0 "[]"]
    orphan_record_rejected [of "\<lambda>_ _. None" "[]" "[]"
      "LedgerUpdate_Created (4::nat) :: (nat, nat) isLedgerUpdate_Op" 0 4 0 0 0 "[]"]
    orphan_record_rejected [of "\<lambda>_ _. None" "[]" "[]"
      "END 1 0 0 :: (nat, nat) isLedgerUpdate_Op" 0 0 1 0 0 "[]"]
  by (simp add: ListenToLedgerUpdates_def del: recv_loop.simps(2))

subsection \<open>An END marker that does not match the open update\<close>




subsection \<open>End of the stream inside a batch\<close>

text \<open>
  Claim C5. When \<^verbatim>\<open>Recv\<close> reports \<^verbatim>\<open>io.EOF\<close> or an error with the status code
  \<^verbatim>\<open>Canceled\<close> while an update is open, the function returns \<^verbatim>\<open>nil\<close> and the callback is not
  invoked for the open update.
\<close>

theorem end_of_stream_mid_batch_is_success:
  assumes "ListenToLedgerUpdates None consume pre = (Receiving (Some u), calls)"
    and "errors_Is (err r) io_EOF \<or> status_Code (err r) = codes_Canceled"
  shows "ListenToLedgerUpdates None consume (pre @ r # rest) = (Returned None, calls)"
  using assms(2) by (simp add: ListenToLedgerUpdates_append [OF assms(1)])

theorem end_of_stream_mid_batch_is_success_witness:
  "ListenToLedgerUpdates None (\<lambda>_ _. Some (OtherError ''unused''))
     [received (BEGIN 1 1 0), Recv None (Some io_EOF) False :: (nat, nat) Recv] =
   (Returned None, []) \<and>
   ListenToLedgerUpdates None (\<lambda>_ _. Some (OtherError ''unused''))
     [received (BEGIN 1 1 0),
      Recv None (Some (StatusError codes_Canceled)) True :: (nat, nat) Recv] =
   (Returned None, [])"
  using end_of_stream_mid_batch_is_success [of "\<lambda>_ _. Some (OtherError ''unused'')"
      "[received (BEGIN 1 1 0) :: (nat, nat) Recv]"
      "\<lparr>MilestoneIndex = 1, Consumed = [], Created = []\<rparr>" "[]"
      "Recv None (Some io_EOF) False" "[]"]
    end_of_stream_mid_batch_is_success [of "\<lambda>_ _. Some (OtherError ''unused'')"
      "[received (BEGIN 1 1 0) :: (nat, nat) Recv]"
      "\<lparr>MilestoneIndex = 1, Consumed = [], Created = []\<rparr>" "[]"
      "Recv None (Some (StatusError codes_Canceled)) True" "[]"]
  by (simp add: eval_defs)

subsection \<open>Two batches in a row\<close>

text \<open>
  Claim C6. Two well-formed batches in a row (the witness takes the indices 5 and 6), every
  record received without error while the context is live and the callback accepting the
  first batch: the callback is invoked exactly twice more, first with the update of the
  first batch, then with the update of the second, and each update holds the payloads
  received between its own BEGIN and END and no others.
\<close>

theorem two_batches_delivered_in_order:
  assumes "ListenToLedgerUpdates None consume pre = (Receiving None, calls)"
    and "list_all is_item items1" and "length (consumed_of items1) = unat c1"
    and "length (created_of items1) = unat k1"
    and "list_all is_item items2" and "length (consumed_of items2) = unat c2"
    and "length (created_of items2) = unat k2"
    and "consume calls \<lparr>MilestoneIndex = idx1, Consumed = consumed_of items1,
                         Created = created_of items1\<rparr> = None"
  shows "ListenToLedgerUpdates None consume
           (pre @ received (BEGIN idx1 c1 k1) # map received items1 @
              received (END idx1 c1 k1) #
              received (BEGIN idx2 c2 k2) # map received items2 @
              [received (END idx2 c2 k2)]) =
         ((case consume
                 (calls @ [\<lparr>MilestoneIndex = idx1, Consumed = consumed_of items1,
                             Created = created_of items1\<rparr>])
                 \<lparr>MilestoneIndex = idx2, Consumed = consumed_of items2,
                    Created = created_of items2\<rparr> of
             None \<Rightarrow> Receiving None | Some e \<Rightarrow> Returned (Some e)),
          calls @ [\<lparr>MilestoneIndex = idx1, Consumed = consumed_of items1,
                     Created = created_of items1\<rparr>,
                   \<lparr>MilestoneIndex = idx2, Consumed = consumed_of items2,
                     Created = created_of items2\<rparr>])"
  using assms(2-8)
  by (simp add: ListenToLedgerUpdates_append [OF assms(1)] recv_loop_batch
           del: recv_loop.simps(2) split: option.split)

theorem two_batches_delivered_in_order_witness:
  "ListenToLedgerUpdates None (\<lambda>_ _. None)
     [received (BEGIN 5 1 1), received (LedgerUpdate_Created (50::nat)),
      received (LedgerUpdate_Consumed (51::nat)), received (END 5 1 1),
      received (BEGIN 6 2 0), received (LedgerUpdate_Consumed 60),
      received (LedgerUpdate_Consumed 61), received (END 6 2 0)] =
   (Receiving None,
    [\<lparr>MilestoneIndex = 5, Consumed = [51], Created = [50]\<rparr>,
     \<lparr>MilestoneIndex = 6, Consumed = [60, 61], Created = []\<rparr>])"
  using two_batches_delivered_in_order [of "\<lambda>_ _. None" "[]" "[]"
      "[LedgerUpdate_Created (50::nat), LedgerUpdate_Consumed (51::nat)]" 1 1
      "[LedgerUpdate_Consumed (60::nat), LedgerUpdate_Consumed 61]" 2 0 5 6]
  by (simp add: ListenToLedgerUpdates_def del: recv_loop.simps(2))

subsection \<open>An error of the callback\<close>

text \<open>
  Claim C7. When the callback returns an error for an update, the function returns that
  very error; the result does not depend on the receive results \<open>rest\<close> that follow the END
  marker, so no later record is processed and no later batch is delivered.
\<close>

theorem callback_error_halts:
  assumes "ListenToLedgerUpdates None consume pre = (Receiving (Some u), calls)"
    and "(of_nat (length (Consumed u)) :: 32 word) = c"
    and "(of_nat (length (Created u)) :: 32 word) = k"
    and "MilestoneIndex u = idx"
    and "consume calls u = Some e"
  shows "ListenToLedgerUpdates None consume (pre @ received (END idx c k) # rest) =
         (Returned (Some e), calls @ [u])"
  using assms(2-5)
  by (simp add: ListenToLedgerUpdates_append [OF assms(1)] recv_loop_received
        switch_Op_END del: recv_loop.simps(2))

theorem callback_error_halts_witness:
  "ListenToLedgerUpdates None (\<lambda>_ _. Some io_EOF)
     [received (BEGIN 5 1 0), received (LedgerUpdate_Consumed (51::nat)),
      received (END 5 1 0),
      received (BEGIN 6 0 1), received (LedgerUpdate_Created (60::nat)),
      received (END 6 0 1)] =
   (Returned (Some io_EOF), [\<lparr>MilestoneIndex = 5, Consumed = [51], Created = []\<rparr>])"
  using callback_error_halts [of "\<lambda>_ _. Some io_EOF"
      "[received (BEGIN 5 1 0), received (LedgerUpdate_Consumed (51::nat)) :: (nat, nat) Recv]"
      "\<lparr>MilestoneIndex = 5, Consumed = [51::nat], Created = [] :: nat list\<rparr>" "[]"
      1 0 5 io_EOF
      "[received (BEGIN 6 0 1), received (LedgerUpdate_Created (60::nat)), received (END 6 0 1)]"]
  by (simp add: eval_defs)

subsection \<open>Transport errors\<close>

text \<open>
  The test of \<^verbatim>\<open>ctx.Err()\<close> (line 44) stands before the test of \<^verbatim>\<open>err\<close> (line 49): an error
  of \<^verbatim>\<open>Recv\<close> that is neither \<^verbatim>\<open>io.EOF\<close> nor \<^verbatim>\<open>Canceled\<close> is dropped, and \<^verbatim>\<open>nil\<close> returned,
  when the context is done, as with the status \<^verbatim>\<open>DeadlineExceeded\<close> of a context whose
  deadline has passed.
\<close>

theorem transport_error_counterexample:
  "\<not> errors_Is (Some (StatusError codes_DeadlineExceeded)) io_EOF \<and>
   status_Code (Some (StatusError codes_DeadlineExceeded)) \<noteq> codes_Canceled \<and>
   ListenToLedgerUpdates None (\<lambda>_ _. None)
     [Recv None (Some (StatusError codes_DeadlineExceeded)) True :: (unit, unit) Recv] =
   (Returned None, [])"
  by (simp add: eval_defs)

text \<open>
  Claim C8, amended. When \<^verbatim>\<open>Recv\<close> reports an error that is neither \<^verbatim>\<open>io.EOF\<close> nor an
  error with the status code \<^verbatim>\<open>Canceled\<close>, and the context is not done, the function
  returns that very error.
\<close>

theorem transport_error_propagated:
  assumes "ListenToLedgerUpdates None consume pre = (Receiving update, calls)"
    and "err r = Some e"
    and "\<not> errors_Is (err r) io_EOF"
    and "status_Code (err r) \<noteq> codes_Canceled"
    and "\<not> ctx_Err r"
  shows "ListenToLedgerUpdates None consume (pre @ r # rest) = (Returned (Some e), calls)"
  using assms(2-5) by (simp add: ListenToLedgerUpdates_append [OF assms(1)])

theorem transport_error_propagated_witness:
  "ListenToLedgerUpdates None (\<lambda>_ _. None)
     [received (BEGIN 1 1 0),
      Recv None (Some (OtherError ''connection reset'')) False :: (nat, nat) Recv] =
   (Returned (Some (OtherError ''connection reset'')), [])"
  using transport_error_propagated [of "\<lambda>_ _. None"
      "[received (BEGIN 1 1 0) :: (nat, nat) Recv]"
      "Some \<lparr>MilestoneIndex = 1, Consumed = [], Created = []\<rparr>" "[]"
      "Recv None (Some (OtherError ''connection reset'')) False"
      "OtherError ''connection reset''" "[]"]
  by (simp add: eval_defs)

subsection \<open>Cancellation\<close>




subsection \<open>Records that the switch does not handle\<close>

text \<open>
  Claim C10. A record whose \<^verbatim>\<open>op\<close> is none of the three handled kinds, or a batch marker
  whose type is neither BEGIN nor END, received without error while the context is live,
  is skipped: the type switch returns no error and leaves \<^verbatim>\<open>update\<close> and the calls as they
  are, and the loop goes on with the next receive result.
\<close>

theorem unhandled_record_skipped:
  assumes "ListenToLedgerUpdates None consume pre = (Receiving update, calls)"
    and "op = None \<or>
         op = Some (LedgerUpdate_BatchMarker (Marker idx (LedgerUpdate_Marker_Unnamed n) c k))"
  shows "switch_Op consume update calls op = (Receiving update, calls) \<and>
         ListenToLedgerUpdates None consume (pre @ [Recv op None False]) =
           (Receiving update, calls) \<and>
         ListenToLedgerUpdates None consume (pre @ Recv op None False # rest) =
           recv_loop consume update calls rest"
  using assms(2)
  by (auto simp add: ListenToLedgerUpdates_append [OF assms(1)] switch_Op_def errors_Is_def
        codes_OK_def codes_Canceled_def)

theorem unhandled_record_skipped_witness:
  "ListenToLedgerUpdates None (\<lambda>_ _. None)
     [received (BEGIN 1 1 0),
      Recv (Some (LedgerUpdate_BatchMarker (Marker 9 (LedgerUpdate_Marker_Unnamed 2) 3 4)))
        None False,
      received (LedgerUpdate_Consumed (10::nat)), received (END 1 1 0) :: (nat, nat) Recv] =
   (Receiving None, [\<lparr>MilestoneIndex = 1, Consumed = [10], Created = []\<rparr>])"
  using unhandled_record_skipped [of "\<lambda>_ _. None"
      "[received (BEGIN 1 1 0) :: (nat, nat) Recv]"
      "Some \<lparr>MilestoneIndex = 1, Consumed = [], Created = []\<rparr>" "[]"
      "Some (LedgerUpdate_BatchMarker (Marker 9 (LedgerUpdate_Marker_Unnamed 2) 3 4))"
      9 2 3 4
      "[received (LedgerUpdate_Consumed (10::nat)), received (END 1 1 0)]"]
  by (simp add: eval_defs)

end
